theory Spec2Isabelle
  imports Main "HOL-Library.Word" "HOL-Library.Signed_Division"
begin

unbundle bit_operations_syntax

section \<open>Machine types and run-time failures\<close>

text \<open>
  The Go types \<^verbatim>\<open>int64\<close>, \<^verbatim>\<open>uint32\<close> and \<^verbatim>\<open>uintptr\<close> are machine words. Signed
  comparisons on \<^verbatim>\<open>int64\<close> are written \<open><s\<close> and \<open>\<le>s\<close>; a nil pointer is the
  address 0.
\<close>

type_synonym int64 = "64 word"
type_synonym uint32 = "32 word"
type_synonym uintptr = "64 word"

text \<open>
  A Go run-time panic ends the operation. \<open>IndexOutOfRange\<close> is the bounds check of a
  fixed-size array, \<open>NegativeShift\<close> the check on a signed shift count, and
  \<open>InvalidAddress\<close> stands for every access through \<^verbatim>\<open>unsafe\<close> that leaves the
  backing byte slice (nil included) or is not word-aligned in it: Go gives such an
  access no meaning, and the model stops there.
\<close>

datatype panic = IndexOutOfRange | NegativeShift | InvalidAddress

datatype alloc_error = ErrBlockNotFound

fun andThen :: "panic + 'a \<Rightarrow> ('a \<Rightarrow> panic + 'b) \<Rightarrow> panic + 'b" where
  "andThen (Inl e) f = Inl e"
| "andThen (Inr x) f = f x"

text \<open>Go's \<^verbatim>\<open>/\<close> on \<^verbatim>\<open>int64\<close> truncates towards zero.\<close>

definition div64 :: "int64 \<Rightarrow> int64 \<Rightarrow> int64" where
  "div64 a b = word_of_int (sint a sdiv sint b)"

text \<open>
  Go's shifts of an \<^verbatim>\<open>int64\<close> by a signed count: a negative count panics, a count
  of 64 or more shifts every bit out (leaving the sign, for \<^verbatim>\<open>>>\<close>).
\<close>

definition shl64 :: "int64 \<Rightarrow> int64 \<Rightarrow> panic + int64" where
  "shl64 v k =
    (if k <s 0 then Inl NegativeShift
     else if 64 \<le>s k then Inr 0
     else Inr (push_bit (unat k) v))"

definition shr64 :: "int64 \<Rightarrow> int64 \<Rightarrow> panic + int64" where
  "shr64 v k =
    (if k <s 0 then Inl NegativeShift
     else if 64 \<le>s k then Inr (if v <s 0 then - 1 else 0)
     else Inr (signed_drop_bit (unat k) v))"

section \<open>Constants\<close>

named_theorems tlsf_consts

definition MaxFLI :: int64 where [tlsf_consts]: "MaxFLI = 30"
definition MaxLog2SLI :: int64 where [tlsf_consts]: "MaxLog2SLI = 5"
definition MaxSLI :: int64 where [tlsf_consts]: "MaxSLI = push_bit (unat MaxLog2SLI) 1"
definition FLIOffset :: int64 where [tlsf_consts]: "FLIOffset = 6"
definition RealFLI :: int64 where [tlsf_consts]: "RealFLI = MaxFLI - FLIOffset"

definition FreeBlock :: int64 where [tlsf_consts]: "FreeBlock = 0x1"
definition UsedBlock :: int64 where [tlsf_consts]: "UsedBlock = 0x0"
definition PreviousBlockFree :: int64 where [tlsf_consts]: "PreviousBlockFree = push_bit 1 0x1"
definition PreviousBlockUsed :: int64 where [tlsf_consts]: "PreviousBlockUsed = push_bit 1 0x0"
definition PtrMask :: int64 where [tlsf_consts]: "PtrMask = 7"
definition BlockSize :: int64 where [tlsf_consts]: "BlockSize = 0xFFFFFFFF - PtrMask"
definition BlockAlign :: int64 where [tlsf_consts]: "BlockAlign = 16"
definition MemAlign :: int64 where [tlsf_consts]: "MemAlign = BlockAlign - 1"
definition BlockHeaderSize :: int64 where [tlsf_consts]: "BlockHeaderSize = 16"
definition MinBlockSize :: int64 where [tlsf_consts]: "MinBlockSize = 16"
definition SmallBlockSize :: int64 where [tlsf_consts]: "SmallBlockSize = 128"

definition table :: "int64 list" where
  "table = [
    -1, 0, 1, 1, 2, 2, 2, 2, 3, 3, 3, 3, 3, 3, 3, 3, 4, 4, 4, 4, 4, 4, 4, 4, 4,
    4, 4, 4, 4, 4, 4, 4,
    5, 5, 5, 5, 5, 5, 5, 5, 5, 5, 5, 5, 5, 5, 5, 5, 5, 5, 5, 5, 5, 5, 5, 5, 5,
    5, 5, 5, 5, 5, 5, 5,
    6, 6, 6, 6, 6, 6, 6, 6, 6, 6, 6, 6, 6, 6, 6, 6, 6, 6, 6, 6, 6, 6, 6, 6, 6,
    6, 6, 6, 6, 6, 6, 6,
    6, 6, 6, 6, 6, 6, 6, 6, 6, 6, 6, 6, 6, 6, 6, 6, 6, 6, 6, 6, 6, 6, 6, 6, 6,
    6, 6, 6, 6, 6, 6, 6,
    7, 7, 7, 7, 7, 7, 7, 7, 7, 7, 7, 7, 7, 7, 7, 7, 7, 7, 7, 7, 7, 7, 7, 7, 7,
    7, 7, 7, 7, 7, 7, 7,
    7, 7, 7, 7, 7, 7, 7, 7, 7, 7, 7, 7, 7, 7, 7, 7, 7, 7, 7, 7, 7, 7, 7, 7, 7,
    7, 7, 7, 7, 7, 7, 7,
    7, 7, 7, 7, 7, 7, 7, 7, 7, 7, 7, 7, 7, 7, 7, 7, 7, 7, 7, 7, 7, 7, 7, 7, 7,
    7, 7, 7, 7, 7, 7, 7,
    7, 7, 7, 7, 7, 7, 7, 7, 7, 7, 7, 7, 7, 7, 7, 7, 7, 7, 7, 7, 7, 7, 7, 7, 7,
    7, 7, 7, 7, 7, 7, 7]"

section \<open>Bit primitives\<close>

definition roundUp :: "int64 \<Rightarrow> int64" where
  "roundUp sz = (sz + MemAlign) AND NOT MemAlign"

definition roundDown :: "int64 \<Rightarrow> int64" where
  "roundDown sz = sz AND NOT MemAlign"

text \<open>
  \<^verbatim>\<open>table[x>>a]\<close>: the cascade picks \<open>a\<close> so that \<open>x >> a\<close> is below 256, the length
  of the table, so the index is always in range (lemma \<open>msb_index_in_table\<close>).
\<close>

definition msb :: "int64 \<Rightarrow> int64" where
  "msb n =
    (let x = (ucast n :: uint32);
         a = (if x \<le> 0xffff then (if x \<le> 0xff then 0 else 8)
              else (if x \<le> 0xffffff then 16 else 24)) :: uint32
     in table ! unat (drop_bit (unat a) x) + ucast a)"

definition lsb :: "int64 \<Rightarrow> int64" where
  "lsb n =
    (let x = (ucast n :: uint32) AND - (ucast n :: uint32);
         a = (if x \<le> 0xffff then (if x \<le> 0xff then 0 else 8)
              else (if x \<le> 0xffffff then 16 else 24)) :: uint32
     in table ! unat (drop_bit (unat a) x) + ucast a)"

definition setBit :: "int64 \<Rightarrow> uint32 \<Rightarrow> uint32" where
  "setBit nr w = w OR push_bit (unat (nr AND 0x1f)) 1"

definition clearBit :: "int64 \<Rightarrow> uint32 \<Rightarrow> uint32" where
  "clearBit nr w = w AND NOT (push_bit (unat (nr AND 0x1f)) 1)"

section \<open>Size classes\<close>

definition determineLevels :: "int64 \<Rightarrow> panic + (int64 \<times> int64)" where
  "determineLevels sz =
    (if sz <s SmallBlockSize then Inr (0, div64 sz (div64 SmallBlockSize MaxSLI))
     else
       let fl = msb sz in
       andThen (shr64 sz (fl - MaxLog2SLI)) (\<lambda>q.
       Inr (fl - FLIOffset, q - MaxSLI)))"

text \<open>The result is the updated \<^verbatim>\<open>*size\<close>, then \<^verbatim>\<open>*fl\<close> and \<^verbatim>\<open>*sl\<close>.\<close>

definition selectLevelsAndSize :: "int64 \<Rightarrow> panic + (int64 \<times> int64 \<times> int64)" where
  "selectLevelsAndSize sz =
    (if sz <s SmallBlockSize then Inr (sz, 0, div64 sz (div64 SmallBlockSize MaxSLI))
     else
       andThen (shl64 1 (msb sz - MaxLog2SLI)) (\<lambda>p.
       let t = p - 1;
           size1 = sz + t;
           fl = msb size1
       in
       andThen (shr64 size1 (fl - MaxLog2SLI)) (\<lambda>q.
       Inr (size1 AND NOT t, fl - FLIOffset, q - MaxSLI))))"

section \<open>The allocator state\<close>

text \<open>
  \<open>arena_len\<close> and \<open>arena_mem\<close> are the byte slice that \<^verbatim>\<open>NewArena\<close> takes from the
  Go arena: its length, and its contents read as 64-bit words by address. Every access
  of the allocator is to a pointer-sized field of a block header, at a multiple of 8
  from \<open>head\<close>.
\<close>

record TLSFArena =
  flBitmap :: uint32
  slBitmap :: "uint32 list"
  matrix :: "uintptr list list"
  head :: uintptr
  usedSize :: int64
  arena_len :: "64 word"
  arena_mem :: "uintptr \<Rightarrow> 64 word"

text \<open>
  An 8-byte access at \<open>p\<close> is inside the slice when \<open>p\<close> is not nil and its offset from
  \<open>head\<close> is a multiple of 8 with 8 bytes left before the end of the slice.
\<close>

definition in_arena :: "TLSFArena \<Rightarrow> uintptr \<Rightarrow> bool" where
  "in_arena t p \<longleftrightarrow>
     p \<noteq> 0 \<and> unat (p - head t) + 8 \<le> unat (arena_len t) \<and> unat (p - head t) mod 8 = 0"

definition load :: "TLSFArena \<Rightarrow> uintptr \<Rightarrow> panic + 64 word" where
  "load t p = (if in_arena t p then Inr (arena_mem t p) else Inl InvalidAddress)"

definition store :: "TLSFArena \<Rightarrow> uintptr \<Rightarrow> 64 word \<Rightarrow> panic + TLSFArena" where
  "store t p v =
    (if in_arena t p then Inr (t\<lparr>arena_mem := (arena_mem t)(p := v)\<rparr>)
     else Inl InvalidAddress)"

text \<open>
  Field addresses of \<^verbatim>\<open>BlockHeader\<close> (\<^verbatim>\<open>prevHeader\<close>, \<^verbatim>\<open>blockSize\<close>) and of
  \<^verbatim>\<open>FreeBlockHeader\<close> (\<^verbatim>\<open>prev\<close>, \<^verbatim>\<open>next\<close>, which lie over the payload).
\<close>

definition prevHeader_at :: "uintptr \<Rightarrow> uintptr" where "prevHeader_at b = b"
definition blockSize_at :: "uintptr \<Rightarrow> uintptr" where "blockSize_at b = b + 8"
definition prev_at :: "uintptr \<Rightarrow> uintptr" where "prev_at b = b + 16"
definition next_at :: "uintptr \<Rightarrow> uintptr" where "next_at b = b + 24"

text \<open>Indexing the arrays \<^verbatim>\<open>[RealFLI]uint32\<close> and \<^verbatim>\<open>[RealFLI][MaxSLI]*FreeBlockHeader\<close>.\<close>

definition index_ok :: "int64 \<Rightarrow> int64 \<Rightarrow> bool" where
  "index_ok bound i \<longleftrightarrow> 0 \<le>s i \<and> i <s bound"

definition slBitmap_get :: "TLSFArena \<Rightarrow> int64 \<Rightarrow> panic + uint32" where
  "slBitmap_get t fl =
    (if index_ok RealFLI fl then Inr (slBitmap t ! unat fl) else Inl IndexOutOfRange)"

definition slBitmap_set :: "TLSFArena \<Rightarrow> int64 \<Rightarrow> uint32 \<Rightarrow> panic + TLSFArena" where
  "slBitmap_set t fl w =
    (if index_ok RealFLI fl then Inr (t\<lparr>slBitmap := (slBitmap t)[unat fl := w]\<rparr>)
     else Inl IndexOutOfRange)"

definition matrix_get :: "TLSFArena \<Rightarrow> int64 \<Rightarrow> int64 \<Rightarrow> panic + uintptr" where
  "matrix_get t fl sl =
    (if index_ok RealFLI fl \<and> index_ok MaxSLI sl then Inr (matrix t ! unat fl ! unat sl)
     else Inl IndexOutOfRange)"

definition matrix_set :: "TLSFArena \<Rightarrow> int64 \<Rightarrow> int64 \<Rightarrow> uintptr \<Rightarrow> panic + TLSFArena" where
  "matrix_set t fl sl b =
    (if index_ok RealFLI fl \<and> index_ok MaxSLI sl
     then Inr (t\<lparr>matrix := (matrix t)[unat fl := (matrix t ! unat fl)[unat sl := b]]\<rparr>)
     else Inl IndexOutOfRange)"

section \<open>Block headers\<close>

definition getPtr :: "uintptr \<Rightarrow> uintptr" where
  "getPtr bf = bf + BlockHeaderSize"

definition setBlockStatus :: "TLSFArena \<Rightarrow> uintptr \<Rightarrow> int64 \<Rightarrow> panic + TLSFArena" where
  "setBlockStatus t bf bs =
    andThen (load t (blockSize_at bf)) (\<lambda>v. store t (blockSize_at bf) (v OR bs))"

definition getBlockSize :: "TLSFArena \<Rightarrow> uintptr \<Rightarrow> panic + int64" where
  "getBlockSize t bf = andThen (load t (blockSize_at bf)) (\<lambda>v. Inr (v AND BlockSize))"

definition isFree :: "TLSFArena \<Rightarrow> uintptr \<Rightarrow> panic + bool" where
  "isFree t bf = andThen (load t (blockSize_at bf)) (\<lambda>v. Inr (v AND FreeBlock = FreeBlock))"

definition isPreviousBlockFree :: "TLSFArena \<Rightarrow> uintptr \<Rightarrow> panic + bool" where
  "isPreviousBlockFree t bf =
    andThen (load t (blockSize_at bf)) (\<lambda>v. Inr (v AND PreviousBlockFree = PreviousBlockFree))"

section \<open>Free-list matrix and bitmaps\<close>

text \<open>The result is the block found (nil is 0), then the updated \<^verbatim>\<open>*fl\<close> and \<^verbatim>\<open>*sl\<close>.\<close>

definition findSuitableBlock ::
  "TLSFArena \<Rightarrow> int64 \<Rightarrow> int64 \<Rightarrow> panic + (uintptr \<times> int64 \<times> int64)" where
  "findSuitableBlock t fl sl =
    andThen (slBitmap_get t fl) (\<lambda>w.
    andThen (shl64 (NOT 0) sl) (\<lambda>m.
    let tmp = ucast w AND m in
    if tmp \<noteq> 0 then
      let sl1 = lsb tmp in
      andThen (matrix_get t fl sl1) (\<lambda>b. Inr (b, fl, sl1))
    else
      andThen (shl64 (NOT 0) (fl + 1)) (\<lambda>m1.
      let fl1 = lsb (ucast (flBitmap t) AND m1) in
      if 0 <s fl1 then
        andThen (slBitmap_get t fl1) (\<lambda>w1.
        let sl1 = lsb (ucast w1) in
        andThen (matrix_get t fl1 sl1) (\<lambda>b. Inr (b, fl1, sl1)))
      else Inr (0, fl1, sl))))"

definition extractBlockHdr ::
  "TLSFArena \<Rightarrow> uintptr \<Rightarrow> int64 \<Rightarrow> int64 \<Rightarrow> panic + TLSFArena" where
  "extractBlockHdr t b fl sl =
    andThen (load t (next_at b)) (\<lambda>nx.
    andThen (matrix_set t fl sl nx) (\<lambda>t1.
    andThen
      (if nx \<noteq> 0 then store t1 (prev_at nx) 0
       else
         andThen (slBitmap_get t1 fl) (\<lambda>w.
         andThen (slBitmap_set t1 fl (clearBit sl w)) (\<lambda>t2.
         if clearBit sl w = 0 then Inr (t2\<lparr>flBitmap := clearBit fl (flBitmap t2)\<rparr>)
         else Inr t2))) (\<lambda>t3.
    andThen (store t3 (prev_at b) 0) (\<lambda>t4.
    store t4 (next_at b) 0))))"

definition insertBlock ::
  "TLSFArena \<Rightarrow> uintptr \<Rightarrow> int64 \<Rightarrow> int64 \<Rightarrow> panic + TLSFArena" where
  "insertBlock t b fl sl =
    andThen (store t (prev_at b) 0) (\<lambda>t1.
    andThen (matrix_get t1 fl sl) (\<lambda>h.
    andThen (store t1 (prev_at b) h) (\<lambda>t2.
    andThen (if h \<noteq> 0 then store t2 (prev_at h) b else Inr t2) (\<lambda>t3.
    andThen (matrix_set t3 fl sl b) (\<lambda>t4.
    andThen (slBitmap_get t4 fl) (\<lambda>w.
    andThen (slBitmap_set t4 fl (setBit sl w)) (\<lambda>t5.
    Inr (t5\<lparr>flBitmap := setBit fl (flBitmap t5)\<rparr>))))))))"

definition extractBlock ::
  "TLSFArena \<Rightarrow> uintptr \<Rightarrow> int64 \<Rightarrow> int64 \<Rightarrow> panic + TLSFArena" where
  "extractBlock t b fl sl =
    andThen (load t (next_at b)) (\<lambda>n1.
    andThen
      (if n1 \<noteq> 0 then andThen (load t (prev_at b)) (\<lambda>p1. store t (prev_at n1) p1)
       else Inr t) (\<lambda>t1.
    andThen (load t1 (prev_at b)) (\<lambda>p2.
    andThen
      (if p2 \<noteq> 0 then andThen (load t1 (next_at b)) (\<lambda>n2. store t1 (next_at p2) n2)
       else Inr t1) (\<lambda>t2.
    andThen (matrix_get t2 fl sl) (\<lambda>h.
    andThen
      (if h = b then
         andThen (load t2 (next_at b)) (\<lambda>n3.
         andThen (matrix_set t2 fl sl n3) (\<lambda>t3.
         if n3 \<noteq> 0 then
           andThen (slBitmap_get t3 fl) (\<lambda>w.
           andThen (slBitmap_set t3 fl (clearBit sl w)) (\<lambda>t4.
           if clearBit sl w \<noteq> 0 then Inr (t4\<lparr>flBitmap := clearBit fl (flBitmap t4)\<rparr>)
           else Inr t4))
         else Inr t3))
       else Inr t2) (\<lambda>t5.
    andThen (store t5 (prev_at b) 0) (\<lambda>t6.
    store t6 (next_at b) 0)))))))"

section \<open>Allocator core\<close>

definition addSize :: "TLSFArena \<Rightarrow> uintptr \<Rightarrow> panic + TLSFArena" where
  "addSize t b =
    andThen (getBlockSize t b) (\<lambda>s. Inr (t\<lparr>usedSize := usedSize t + (s + BlockHeaderSize)\<rparr>))"

definition removeSize :: "TLSFArena \<Rightarrow> uintptr \<Rightarrow> panic + TLSFArena" where
  "removeSize t b =
    andThen (getBlockSize t b) (\<lambda>s. Inr (t\<lparr>usedSize := usedSize t - (s + BlockHeaderSize)\<rparr>))"

text \<open>
  \<^verbatim>\<open>Allocate\<close> returns the pair of Go results (a pointer, or the error
  \<^verbatim>\<open>ErrBlockNotFound\<close>) together with the arena as the call leaves it. The bound 16 of
  the split test is the local constant \<^verbatim>\<open>blockHeaderSize\<close>, the size of a
  \<^verbatim>\<open>BlockHeader\<close>.
\<close>

definition Allocate ::
  "TLSFArena \<Rightarrow> int64 \<Rightarrow> panic + ((alloc_error + uintptr) \<times> TLSFArena)" where
  "Allocate t sz0 =
    (let sz1 = (if sz0 <s MinBlockSize then MinBlockSize else roundUp sz0) in
     andThen (selectLevelsAndSize sz1) (\<lambda>(sz, fl0, sl0).
     andThen (findSuitableBlock t fl0 sl0) (\<lambda>(b, fl, sl).
     if b = 0 then Inr (Inl ErrBlockNotFound, t)
     else
       andThen (extractBlockHdr t b fl sl) (\<lambda>t1.
       andThen (getBlockSize t1 b) (\<lambda>bs.
       let nb = getPtr b + bs;
           tmpSize = bs - sz
       in
       andThen
         (if 16 \<le>s tmpSize then
            let tmpSize1 = tmpSize - BlockHeaderSize;
                b2 = getPtr b + sz
            in
            andThen (store t1 (blockSize_at b2) tmpSize1) (\<lambda>t2.
            andThen (setBlockStatus t2 b2 (PreviousBlockUsed OR FreeBlock)) (\<lambda>t3.
            andThen (store t3 (prevHeader_at nb) b2) (\<lambda>t4.
            andThen (determineLevels tmpSize1) (\<lambda>(fl2, sl2).
            andThen (insertBlock t4 b2 fl2 sl2) (\<lambda>t5.
            andThen (load t5 (blockSize_at b)) (\<lambda>v.
            store t5 (blockSize_at b) (sz OR (v AND 0x2))))))))
          else
            andThen (load t1 (blockSize_at nb)) (\<lambda>v.
            andThen (store t1 (blockSize_at nb) (v AND NOT PreviousBlockFree)) (\<lambda>t2.
            andThen (load t2 (blockSize_at b)) (\<lambda>v1.
            store t2 (blockSize_at b) (v1 AND NOT FreeBlock))))) (\<lambda>t6.
       andThen (addSize t6 b) (\<lambda>t7.
       Inr (Inr (getPtr b), t7))))))))"

definition Free :: "TLSFArena \<Rightarrow> uintptr \<Rightarrow> panic + TLSFArena" where
  "Free t ptr =
    (let b = ptr - BlockHeaderSize in
     andThen (setBlockStatus t b FreeBlock) (\<lambda>t1.
     andThen (removeSize t1 b) (\<lambda>t2.
     andThen (store t2 (prev_at b) 0) (\<lambda>t3.
     andThen (store t3 (next_at b) 0) (\<lambda>t4.
     andThen (getBlockSize t4 b) (\<lambda>bs.
     let nb = b + bs in
     andThen (isFree t4 nb) (\<lambda>nbFree.
     andThen
       (if nbFree then
          andThen (getBlockSize t4 nb) (\<lambda>ns.
          andThen (determineLevels ns) (\<lambda>(fl, sl).
          andThen (extractBlock t4 nb fl sl) (\<lambda>t5.
          andThen (load t5 (blockSize_at b)) (\<lambda>v.
          andThen (getBlockSize t5 nb) (\<lambda>ns1.
          store t5 (blockSize_at b) (v + (ns1 + BlockHeaderSize)))))))
        else Inr t4) (\<lambda>t6.
     andThen (isPreviousBlockFree t6 nb) (\<lambda>prevFree.
     andThen
       (if prevFree then
          andThen (load t6 (prevHeader_at nb)) (\<lambda>pfb.
          andThen (getBlockSize t6 pfb) (\<lambda>ps.
          andThen (determineLevels ps) (\<lambda>(fl, sl).
          andThen (extractBlock t6 pfb fl sl) (\<lambda>t7.
          andThen (load t7 (blockSize_at pfb)) (\<lambda>v.
          andThen (getBlockSize t7 b) (\<lambda>bs1.
          andThen (store t7 (blockSize_at pfb) (v + (bs1 + BlockHeaderSize))) (\<lambda>t8.
          Inr (t8, pfb))))))))
        else Inr (t6, b)) (\<lambda>(t9, b1).
     andThen (getBlockSize t9 b1) (\<lambda>fs.
     andThen (determineLevels fs) (\<lambda>(fl, sl).
     insertBlock t9 b1 fl sl))))))))))))"

definition UsedSize :: "TLSFArena \<Rightarrow> int64" where
  "UsedSize t = usedSize t"

section \<open>Lifecycle\<close>

text \<open>
  \<^verbatim>\<open>NewArena\<close>. The argument \<open>base\<close> is the address at which the Go arena places the
  byte slice (\<^verbatim>\<open>&bytes[0]\<close>, which panics on an empty slice); the slice and the
  \<^verbatim>\<open>TLSFArena\<close> struct start out zeroed.
\<close>

definition NewArena :: "uintptr \<Rightarrow> uint32 \<Rightarrow> panic + TLSFArena" where
  "NewArena base allocationBytes =
    (if allocationBytes = 0 then Inl IndexOutOfRange
     else
       let tlsf = \<lparr> flBitmap = 0,
                    slBitmap = replicate (unat RealFLI) 0,
                    matrix = replicate (unat RealFLI) (replicate (unat MaxSLI) 0),
                    head = base,
                    usedSize = 0,
                    arena_len = ucast allocationBytes,
                    arena_mem = (\<lambda>_. 0) \<rparr>;
           b = base
       in
       andThen (store tlsf (blockSize_at b)
                  (roundDown (ucast allocationBytes - 2 * BlockHeaderSize))) (\<lambda>t1.
       andThen (setBlockStatus t1 b (PreviousBlockUsed OR FreeBlock)) (\<lambda>t2.
       andThen (getBlockSize t2 b) (\<lambda>bs.
       let lb = getPtr b + bs in
       andThen (setBlockStatus t2 lb (PreviousBlockFree OR UsedBlock)) (\<lambda>t3.
       andThen (store t3 (prevHeader_at lb) b) (\<lambda>t4.
       andThen (Free t4 (getPtr b)) (\<lambda>t5.
       andThen (getBlockSize t5 b) (\<lambda>bs1.
       Inr (t5\<lparr>usedSize := ucast allocationBytes - bs1\<rparr>)))))))))"

section \<open>Sequences of client operations\<close>

text \<open>
  A client holds the pointers it was given. \<open>Alloc n\<close> calls \<^verbatim>\<open>Allocate(n)\<close> and keeps
  the pointer when there is one; \<open>FreeNth i\<close> frees the \<open>i\<close>-th pointer still held
  (nothing when there is no such pointer), so that only pointers returned by
  \<^verbatim>\<open>Allocate\<close> and not yet freed are ever passed to \<^verbatim>\<open>Free\<close>.
\<close>

datatype op = Alloc int64 | FreeNth nat

fun run_op :: "TLSFArena \<times> uintptr list \<Rightarrow> op \<Rightarrow> panic + (TLSFArena \<times> uintptr list)" where
  "run_op (t, ps) (Alloc n) =
     andThen (Allocate t n) (\<lambda>(r, t1).
       case r of Inl _ \<Rightarrow> Inr (t1, ps) | Inr p \<Rightarrow> Inr (t1, ps @ [p]))"
| "run_op (t, ps) (FreeNth i) =
     (if i < length ps
      then andThen (Free t (ps ! i)) (\<lambda>t1. Inr (t1, take i ps @ drop (Suc i) ps))
      else Inr (t, ps))"

fun run_ops :: "TLSFArena \<times> uintptr list \<Rightarrow> op list \<Rightarrow> panic + (TLSFArena \<times> uintptr list)" where
  "run_ops st [] = Inr st"
| "run_ops st (x # xs) = andThen (run_op st x) (\<lambda>st1. run_ops st1 xs)"

definition run :: "uintptr \<Rightarrow> uint32 \<Rightarrow> op list \<Rightarrow> panic + (TLSFArena \<times> uintptr list)" where
  "run base n xs = andThen (NewArena base n) (\<lambda>t. run_ops (t, []) xs)"

text \<open>The Go results of one \<^verbatim>\<open>Allocate\<close> on a freshly built arena.\<close>

definition Allocate_on_fresh :: "uintptr \<Rightarrow> uint32 \<Rightarrow> int64 \<Rightarrow> panic + (alloc_error + uintptr)" where
  "Allocate_on_fresh base n sz =
     andThen (NewArena base n) (\<lambda>t. andThen (Allocate t sz) (\<lambda>(r, t1). Inr r))"

section \<open>Evaluating the operations on concrete arenas\<close>

text \<open>
  The operations are sequences of fallible steps. To run them on a concrete arena the
  simplifier evaluates each step before it enters the continuation.
\<close>

lemma andThen_weak_cong: "m = m' \<Longrightarrow> andThen m f = andThen m' f"
  by simp

lemma andThen_eq_Inr: "andThen m f = Inr y \<longleftrightarrow> (\<exists>x. m = Inr x \<and> f x = Inr y)"
  by (cases m) auto

lemmas step_defs =
  NewArena_def Free_def Allocate_def UsedSize_def run_def Allocate_on_fresh_def
  insertBlock_def extractBlock_def extractBlockHdr_def findSuitableBlock_def
  addSize_def removeSize_def getBlockSize_def isFree_def isPreviousBlockFree_def
  setBlockStatus_def getPtr_def matrix_get_def matrix_set_def slBitmap_get_def
  slBitmap_set_def index_ok_def load_def store_def
  prevHeader_at_def blockSize_at_def prev_at_def next_at_def
  determineLevels_def selectLevelsAndSize_def msb_def lsb_def setBit_def clearBit_def
  roundUp_def roundDown_def shl64_def shr64_def div64_def signed_divide_int_def
  word_sless_alt word_sle_eq mask_numeral table_def Let_def

lemmas eval_defs = step_defs in_arena_def

lemmas eval_congs = andThen_weak_cong let_weak_cong prod.case_cong_weak sum.case_cong_weak

section \<open>Requests below the minimum block size\<close>

text \<open>
  C10. For every requested size strictly less than \<open>MinBlockSize = 16\<close>, zero and
  negative values included, \<open>Allocate\<close> behaves exactly as \<open>Allocate 16\<close>: the request is
  clamped up to 16 bytes, and a negative size is accepted rather than rejected.
\<close>

theorem Allocate_clamps_small_sizes:
  "sz <s MinBlockSize \<Longrightarrow> Allocate t sz = Allocate t MinBlockSize"
  by (simp add: Allocate_def roundUp_def tlsf_consts)

theorem Allocate_clamps_small_sizes_witness:
  "(- 5 :: int64) <s MinBlockSize \<and>
   (\<exists>t t'. NewArena 0x10000 32768 = Inr t \<and> Allocate t (- 5) = Inr (Inr 0x10010, t') \<and>
            usedSize t' = 64)"
proof -
  have small: "(- 5 :: int64) <s MinBlockSize"
    by (simp add: tlsf_consts)
  have "\<exists>t t'. NewArena 0x10000 32768 = Inr t \<and>
            Allocate t MinBlockSize = Inr (Inr 0x10010, t') \<and> usedSize t' = 64"
    by (simp add: eval_defs tlsf_consts cong: eval_congs)
  with small show ?thesis
    by (simp add: Allocate_clamps_small_sizes [OF small])
qed

section \<open>A failed allocation\<close>

text \<open>
  C7. Whenever \<open>Allocate\<close> returns \<open>ErrBlockNotFound\<close>, the whole allocator state (the
  first-level bitmap, every second-level word, every matrix entry, every block header in
  the region and the used size) equals its value immediately before the call.
\<close>

theorem Allocate_failure_keeps_state:
  "Allocate t sz = Inr (Inl ErrBlockNotFound, t') \<Longrightarrow> t' = t"
  by (auto simp: Allocate_def Let_def andThen_eq_Inr split: prod.splits if_splits)

theorem Allocate_failure_keeps_state_witness:
  "\<exists>t t'. NewArena 0x10000 64 = Inr t \<and>
          Allocate t 64 = Inr (Inl ErrBlockNotFound, t') \<and> t' = t"
proof -
  have "\<exists>t t'. NewArena 0x10000 64 = Inr t \<and> Allocate t 64 = Inr (Inl ErrBlockNotFound, t')"
    by (simp add: eval_defs tlsf_consts cong: eval_congs)
  then obtain t t' where new: "NewArena 0x10000 64 = Inr t"
    and fail: "Allocate t 64 = Inr (Inl ErrBlockNotFound, t')"
    by blast
  from Allocate_failure_keeps_state [OF fail] new fail show ?thesis
    by blast
qed

section \<open>Free lists\<close>

text \<open>
  C4. For every free block \<open>b\<close> and every class \<open>(fl, sl)\<close>, \<open>insertBlock b fl sl\<close> makes
  \<open>b\<close> the new head of \<open>matrix[fl][sl]\<close>, sets \<open>b\<close>'s next pointer to the previous head,
  sets the previous head's prev pointer to \<open>b\<close> when the list was not empty, and sets bit
  \<open>sl\<close> of \<open>slBitmap[fl]\<close> and bit \<open>fl\<close> of \<open>flBitmap\<close>.

  The code assigns \<^verbatim>\<open>b.prev\<close> twice and never \<^verbatim>\<open>b.next\<close>. Below, the list of class
  \<open>(0, 4)\<close> holds the block at \<open>0x10000\<close>; after the free block at \<open>0x10020\<close> is inserted
  it is the head, its next pointer is still nil, and its prev pointer is the old head.
\<close>

theorem insertBlock_leaves_next_unlinked:
  "\<exists>t1 ps t2 t3. run 0x10000 32768 [Alloc 16, Alloc 16, FreeNth 0] = Inr (t1, ps) \<and>
     matrix_get t1 0 4 = Inr 0x10000 \<and>
     setBlockStatus t1 0x10020 FreeBlock = Inr t2 \<and>
     insertBlock t2 0x10020 0 4 = Inr t3 \<and>
     matrix_get t3 0 4 = Inr 0x10020 \<and>
     load t3 (next_at 0x10020) = Inr 0 \<and>
     load t3 (prev_at 0x10020) = Inr 0x10000 \<and>
     load t3 (prev_at 0x10000) = Inr 0x10020"
  by (simp add: eval_defs tlsf_consts cong: eval_congs)

text \<open>
  C1. After any finite sequence of allocate and free operations starting from
  \<open>NewArena\<close>, for every class \<open>(fl, sl)\<close>: bit \<open>fl\<close> of \<open>flBitmap\<close> is 1 iff
  \<open>slBitmap[fl]\<close> is not 0; bit \<open>sl\<close> of \<open>slBitmap[fl]\<close> is 1 iff \<open>matrix[fl][sl]\<close> is not
  nil; every block reachable through \<open>matrix[fl][sl]\<close> is free and of that class; and
  every free block in the region appears in exactly one list.

  Two 16-byte blocks are allocated and freed, and 16 bytes are allocated again. The
  second free pushes its block in front of the first without linking it, so the
  allocation empties the list of class \<open>(0, 4)\<close>: the block at \<open>0x10000\<close> is free, of
  size 16 and class \<open>(0, 4)\<close>, and in no list.
\<close>

theorem leaked_free_block:
  "\<exists>t ps. run 0x10000 32768 [Alloc 16, Alloc 16, FreeNth 0, FreeNth 0, Alloc 16] = Inr (t, ps) \<and>
     isFree t 0x10000 = Inr True \<and> getBlockSize t 0x10000 = Inr 16 \<and>
     determineLevels 16 = Inr (0, 4) \<and> matrix_get t 0 4 = Inr 0 \<and>
     matrix_get t 8 31 = Inr 0x10040 \<and> load t (next_at 0x10040) = Inr 0 \<and>
     flBitmap t = 0x100"
  by (simp add: eval_defs tlsf_consts cong: eval_congs)

section \<open>Coalescing in Free\<close>

text \<open>
  C3. For every call \<open>Free p\<close> on a pointer returned by \<open>Allocate\<close> and not yet freed, the
  forward-coalescing step examines the header of the physical successor, at the freed
  block's payload pointer plus its size, and merges that successor into the freed block
  if and only if the successor's FREE flag is set.

  The code reads the header at block base plus size, 16 bytes before the successor.
  Below, the successor of the block of \<open>p = 0x10010\<close> is free, of size 32256; after
  \<open>Free\<close> the block still has size 464 and the successor is still the head of its list.
\<close>

theorem Free_skips_free_successor:
  "\<exists>t1 t2. run 0x10000 32768 [Alloc 460] = Inr (t1, [0x10010]) \<and>
     getBlockSize t1 (0x10010 - BlockHeaderSize) = Inr 464 \<and>
     isFree t1 (0x10010 + 464) = Inr True \<and>
     getBlockSize t1 (0x10010 + 464) = Inr 32256 \<and>
     Free t1 0x10010 = Inr t2 \<and>
     getBlockSize t2 (0x10010 - BlockHeaderSize) = Inr 464 \<and>
     matrix_get t2 8 31 = Inr (0x10010 + 464)"
  by (simp add: eval_defs tlsf_consts cong: eval_congs)

text \<open>
  C5. For every call \<open>Free p\<close>, if the physical predecessor of the freed block was free
  before the call then \<open>Free\<close> extracts that predecessor from its list and absorbs the
  freed block into it, and the merged predecessor is the block inserted into the matrix;
  if the predecessor was in use, no backward merge occurs.

  Below, the block at \<open>0x10000\<close> is free and ends where the block of \<open>p = 0x10030\<close>
  begins; after \<open>Free\<close> both blocks still have size 16 and the freed block itself is the
  head of the list of class \<open>(0, 4)\<close>.
\<close>

theorem Free_skips_free_predecessor:
  "\<exists>t1 t2. run 0x10000 32768 [Alloc 16, Alloc 16, FreeNth 0] = Inr (t1, [0x10030]) \<and>
     isFree t1 0x10000 = Inr True \<and> getBlockSize t1 0x10000 = Inr 16 \<and>
     getPtr 0x10000 + 16 = 0x10030 - BlockHeaderSize \<and>
     Free t1 0x10030 = Inr t2 \<and>
     getBlockSize t2 0x10000 = Inr 16 \<and>
     getBlockSize t2 (0x10030 - BlockHeaderSize) = Inr 16 \<and>
     matrix_get t2 0 4 = Inr (0x10030 - BlockHeaderSize)"
  by (simp add: eval_defs tlsf_consts cong: eval_congs)

text \<open>
  C6. For every finite sequence of allocate calls all of whose pointers are then freed,
  in any order, the final state is observationally equal to the state after
  construction: one free block of the initial size, and one bit set in each bitmap.

  After one allocation of 460 bytes and its free, the arena holds two free blocks, of
  sizes 464 and 32256 in the classes \<open>(2, 26)\<close> and \<open>(8, 31)\<close>, where it started with one
  of size 32736.
\<close>

theorem round_trip_leaves_two_blocks:
  "\<exists>t0 t. NewArena 0x10000 32768 = Inr t0 \<and>
     run 0x10000 32768 [Alloc 460, FreeNth 0] = Inr (t, []) \<and>
     flBitmap t0 = 0x100 \<and> matrix_get t0 8 31 = Inr 0x10000 \<and>
     getBlockSize t0 0x10000 = Inr 32736 \<and>
     flBitmap t = 0x104 \<and>
     matrix_get t 2 26 = Inr 0x10000 \<and> getBlockSize t 0x10000 = Inr 464 \<and>
     matrix_get t 8 31 = Inr 0x101E0 \<and> getBlockSize t 0x101E0 = Inr 32256"
  by (simp add: eval_defs tlsf_consts cong: eval_congs)

section \<open>Boundary tags\<close>

text \<open>
  C2. After any finite sequence of allocate and free operations starting from
  \<open>NewArena\<close>, for every physically adjacent pair of blocks \<open>(a, b)\<close>: \<open>b\<close>'s prevHeader
  is the address of \<open>a\<close>, \<open>b\<close>'s PREV_FREE flag equals \<open>a\<close>'s FREE flag, and the address of
  \<open>b\<close> is \<open>a\<close>'s payload pointer plus \<open>a\<close>'s size.

  \<open>Free\<close> never writes the header of the block after the one it frees. Below, the block
  \<open>a\<close> at \<open>0x10000\<close> is free after the round trip, and its successor has PREV_FREE clear
  and a nil prevHeader.
\<close>

theorem successor_tags_stale_after_Free:
  "\<exists>t. run 0x10000 32768 [Alloc 460, FreeNth 0] = Inr (t, []) \<and>
     isFree t 0x10000 = Inr True \<and> getBlockSize t 0x10000 = Inr 464 \<and>
     isPreviousBlockFree t (getPtr 0x10000 + 464) = Inr False \<and>
     load t (prevHeader_at (getPtr 0x10000 + 464)) = Inr 0"
  by (simp add: eval_defs tlsf_consts cong: eval_congs)

section \<open>Properties of the bit primitives\<close>

lemma table_split:
  "table = [- 1, 0] @ replicate 2 1 @ replicate 4 2 @ replicate 8 3 @ replicate 16 4 @
           replicate 32 5 @ replicate 64 6 @ replicate 128 7"
  by (simp add: table_def numeral_eq_Suc)

lemma table_log:
  assumes "0 < i" "i < 256"
  shows "\<exists>k<8. table ! i = of_nat k \<and> 2 ^ k \<le> i \<and> i < 2 ^ Suc k"
proof -
  consider "i < 2" | "2 \<le> i" "i < 4" | "4 \<le> i" "i < 8" | "8 \<le> i" "i < 16"
    | "16 \<le> i" "i < 32" | "32 \<le> i" "i < 64" | "64 \<le> i" "i < 128" | "128 \<le> i"
    by linarith
  then show ?thesis
  proof cases
    case 1 with assms show ?thesis by (intro exI [of _ 0]) (auto simp: table_split nth_append nth_Cons')
  next
    case 2 with assms show ?thesis by (intro exI [of _ 1]) (auto simp: table_split nth_append nth_Cons')
  next
    case 3 with assms show ?thesis by (intro exI [of _ 2]) (auto simp: table_split nth_append nth_Cons')
  next
    case 4 with assms show ?thesis by (intro exI [of _ 3]) (auto simp: table_split nth_append nth_Cons')
  next
    case 5 with assms show ?thesis by (intro exI [of _ 4]) (auto simp: table_split nth_append nth_Cons')
  next
    case 6 with assms show ?thesis by (intro exI [of _ 5]) (auto simp: table_split nth_append nth_Cons')
  next
    case 7 with assms show ?thesis by (intro exI [of _ 6]) (auto simp: table_split nth_append nth_Cons')
  next
    case 8 with assms show ?thesis by (intro exI [of _ 7]) (auto simp: table_split nth_append nth_Cons')
  qed
qed

lemma shift_log:
  fixes X :: nat
  assumes "2 ^ k \<le> X div 2 ^ a" "X div 2 ^ a < 2 ^ Suc k"
  shows "2 ^ (k + a) \<le> X \<and> X < 2 ^ Suc (k + a)"
proof -
  have "2 ^ k * 2 ^ a \<le> X"
    using assms(1) by (simp add: less_eq_div_iff_mult_less_eq)
  moreover have "X < 2 ^ Suc k * 2 ^ a"
    using assms(2) by (simp add: div_less_iff_less_mult)
  ultimately show ?thesis
    by (simp add: power_add)
qed

lemma msb_log:
  fixes x :: int64
  assumes "x \<noteq> 0" "unat x < 2 ^ 32"
  shows "\<exists>k<32. msb x = of_nat k \<and> 2 ^ k \<le> unat x \<and> unat x < 2 ^ Suc k"
proof -
  define y :: uint32 where "y = ucast x"
  have uy: "unat y = unat x"
    using assms(2) by (simp add: y_def unsigned_ucast_eq take_bit_nat_eq_self)
  have pos: "0 < unat x"
    using assms(1) by (simp add: unat_gt_0)
  define a :: nat where
    "a = (if unat x \<le> 65535 then (if unat x \<le> 255 then 0 else 8)
          else (if unat x \<le> 16777215 then 16 else 24))"
  have cascade: "(if y \<le> 0xffff then (if y \<le> 0xff then 0 else 8)
              else (if y \<le> 0xffffff then 16 else 24) :: uint32) = of_nat a"
    by (simp add: a_def word_le_nat_alt uy)
  have a_cases: "a = 0 \<or> a = 8 \<or> a = 16 \<or> a = 24"
    by (simp add: a_def)
  have ua: "unat (of_nat a :: uint32) = a"
    using a_cases by auto
  have idx: "unat (drop_bit a y) = unat x div 2 ^ a"
    unfolding unat_drop_bit_eq uy by (simp add: drop_bit_eq_div)
  have "0 < unat x div 2 ^ a \<and> unat x div 2 ^ a < 256"
    using pos assms(2) by (auto simp: a_def div_greater_zero_iff)
  then obtain k where k: "k < 8" "table ! (unat x div 2 ^ a) = of_nat k"
    "2 ^ k \<le> unat x div 2 ^ a" "unat x div 2 ^ a < 2 ^ Suc k"
    using table_log by blast
  have m: "msb x = of_nat (k + a)"
    unfolding msb_def Let_def y_def [symmetric] cascade ua idx k(2)
    using a_cases by auto
  from k(1) a_cases have "k + a < 32" by auto
  with m shift_log [OF k(3) k(4)] show ?thesis by blast
qed

lemma msb_index_in_table:
  fixes x :: uint32
  shows "unat (drop_bit (unat (if x \<le> 0xffff then (if x \<le> 0xff then 0 else 8)
                               else (if x \<le> 0xffffff then 16 else 24) :: uint32)) x)
         < length table"
proof -
  have len: "length table = 256"
    by (simp add: table_def)
  have "unat x < 2 ^ LENGTH(32)"
    by (rule unsigned_less)
  then have "unat x < 4294967296"
    by simp
  then show ?thesis
    unfolding len unat_drop_bit_eq
    by (auto simp: drop_bit_eq_div word_le_nat_alt)
qed

lemma sint_small:
  fixes x :: int64
  assumes "x \<le> 0xFFFFFFFF"
  shows "sint x = uint x"
proof -
  have "uint x \<le> 0xFFFFFFFF"
    using assms by (simp add: word_le_def)
  then have hi: "uint x < 2 ^ 63"
    by simp
  have "- (2 ^ 63) \<le> (0::int)"
    by simp
  also have "0 \<le> uint x"
    by simp
  finally have "signed_take_bit 63 (uint x) = uint x"
    using hi by (rule signed_take_bit_int_eq_self)
  then show ?thesis
    by (simp add: sint_uint)
qed

lemma msb_top:
  fixes x :: int64
  assumes "0x40000000 \<le> x" "x \<le> 0xFFFFFFFF"
  shows "msb x = (if x < 0x80000000 then 30 else 31)"
proof -
  have lo: "2 ^ 30 \<le> unat x" and hi: "unat x < 2 ^ 32"
    using assms by (simp_all add: word_le_nat_alt)
  from lo have "x \<noteq> 0"
    by auto
  with hi obtain k where k: "k < 32" "msb x = of_nat k" "2 ^ k \<le> unat x" "unat x < 2 ^ Suc k"
    using msb_log by blast
  have "(2::nat) ^ 30 < 2 ^ Suc k"
    using lo k(4) by (rule le_less_trans)
  then have "30 < Suc k"
    by (rule power_less_imp_less_exp [rotated]) simp
  then have k30: "30 \<le> k"
    by simp
  show ?thesis
  proof (cases "x < 0x80000000")
    case True
    then have "unat x < 2 ^ 31"
      by (simp add: word_less_nat_alt)
    with k(3) have "(2::nat) ^ k < 2 ^ 31"
      by (rule le_less_trans)
    then have "k < 31"
      by (rule power_less_imp_less_exp [rotated]) simp
    with k30 have "k = 30" by simp
    with True k(2) show ?thesis by simp
  next
    case False
    then have "2 ^ 31 \<le> unat x"
      by (simp add: word_less_nat_alt)
    from this k(4) have "(2::nat) ^ 31 < 2 ^ Suc k"
      by (rule le_less_trans)
    then have "31 < Suc k"
      by (rule power_less_imp_less_exp [rotated]) simp
    then have "31 \<le> k"
      by simp
    with k(1) have "k = 31" by simp
    with False k(2) show ?thesis by simp
  qed
qed

lemma index_ok_unat:
  fixes i :: int64
  shows "unat i < 24 \<Longrightarrow> index_ok RealFLI i" and "unat i < 32 \<Longrightarrow> index_ok MaxSLI i"
proof -
  have *: "sint i = uint i" if "unat i < 32"
  proof -
    from that have "i \<le> 0xFFFFFFFF"
      by (simp add: word_le_nat_alt)
    then show ?thesis
      by (rule sint_small)
  qed
  have **: "uint i < 24" if "unat i < 24"
  proof -
    from that have "i < 24"
      by (simp add: word_less_nat_alt)
    then show ?thesis
      by (simp add: word_less_def)
  qed
  have ***: "uint i < 32" if "unat i < 32"
  proof -
    from that have "i < 32"
      by (simp add: word_less_nat_alt)
    then show ?thesis
      by (simp add: word_less_def)
  qed
  show "unat i < 24 \<Longrightarrow> index_ok RealFLI i"
    using * ** by (simp add: index_ok_def word_sle_eq word_sless_alt tlsf_consts)
  show "unat i < 32 \<Longrightarrow> index_ok MaxSLI i"
    using * *** by (simp add: index_ok_def word_sle_eq word_sless_alt tlsf_consts)
qed

lemma roundDown_push_drop: "roundDown x = push_bit 4 (drop_bit 4 x)"
proof -
  have "(15 :: int64) = mask 4"
    by (simp add: mask_numeral)
  then have "roundDown x = x AND NOT (mask 4)"
    by (simp add: roundDown_def tlsf_consts)
  also have "\<dots> = push_bit 4 (drop_bit 4 x)"
    by (rule bit_eqI) (auto simp: bit_simps)
  finally show ?thesis .
qed

lemma unat_roundDown: "unat (roundDown x) = unat x div 16 * 16"
proof -
  have d: "unat (drop_bit 4 x) = unat x div 16"
    unfolding unat_drop_bit_eq by (simp add: drop_bit_eq_div)
  then have "unat (drop_bit 4 x) * 16 \<le> unat x"
    by simp
  also have "unat x < 2 ^ LENGTH(64)"
    by (rule unsigned_less)
  finally have "unat (drop_bit 4 x) * 16 < 2 ^ 64"
    by simp
  then have "unat (drop_bit 4 x * 16) = unat (drop_bit 4 x) * unat (16 :: int64)"
    by (simp add: unat_mult_lem [THEN iffD1])
  then show ?thesis
    unfolding roundDown_push_drop push_bit_eq_mult d by simp
qed

lemma getBlockSize_of_marked:
  fixes x :: int64
  assumes "unat x < 2 ^ 32"
  shows "(roundDown x OR 1) AND 0xFFFFFFF8 = roundDown x"
proof -
  have "x < 0x100000000"
    using assms by (simp add: word_less_nat_alt)
  then have "uint x < 2 ^ 32"
    by (simp add: word_less_def)
  then have "x AND mask 32 = x"
    unfolding mask_eq_iff .
  then have x: "x = take_bit 32 x"
    by (simp add: take_bit_eq_mask)
  have C: "(0xFFFFFFF8 :: int64) = push_bit 3 (mask 29)"
    by (simp add: mask_numeral)
  show ?thesis
    apply (subst (1 2) x)
    unfolding roundDown_push_drop C
    by (rule bit_eqI) (auto simp: bit_simps)
qed

lemma determineLevels_small:
  fixes S :: int64
  assumes "unat S < 128"
  shows "determineLevels S = Inr (0, S div 4)"
proof -
  from assms have "S < 128" and S32: "S \<le> 0xFFFFFFFF"
    by (simp_all add: word_less_nat_alt word_le_nat_alt)
  then have "uint S < 128"
    by (simp add: word_less_def)
  then have small: "S <s SmallBlockSize"
    by (simp add: word_sless_alt sint_small [OF S32] tlsf_consts)
  have four: "div64 SmallBlockSize MaxSLI = 4"
    by (simp add: div64_def tlsf_consts signed_divide_int_def)
  have "sint S sdiv 4 = uint S div 4"
    by (simp add: sint_small [OF S32] signed_divide_int_def sgn_if)
  then have "div64 S 4 = S div 4"
    by (simp add: div64_def word_div_def)
  with small four show ?thesis
    by (simp add: determineLevels_def)
qed

lemma determineLevels_large:
  fixes S :: int64
  assumes lo: "128 \<le> unat S" and hi: "unat S < 2 ^ 30"
  shows "\<exists>fl sl. determineLevels S = Inr (fl, sl) \<and> unat fl < 24 \<and> unat sl < 32"
proof -
  have S32: "S \<le> 0xFFFFFFFF"
    using hi by (simp add: word_le_nat_alt)
  have "128 \<le> S"
    using lo by (simp add: word_le_nat_alt)
  then have "128 \<le> uint S"
    by (simp add: word_le_def)
  then have big: "\<not> S <s SmallBlockSize"
    by (simp add: word_sless_alt sint_small [OF S32] tlsf_consts)
  from lo have "S \<noteq> 0"
    by auto
  moreover from hi have "unat S < 2 ^ 32"
    by simp
  ultimately obtain k where k: "k < 32" "msb S = of_nat k" "2 ^ k \<le> unat S" "unat S < 2 ^ Suc k"
    using msb_log by blast
  have "(2::nat) ^ 7 \<le> unat S"
    using lo by simp
  from this k(4) have "(2::nat) ^ 7 < 2 ^ Suc k"
    by (rule le_less_trans)
  then have "7 < Suc k"
    by (rule power_less_imp_less_exp [rotated]) simp
  from k(3) hi have "(2::nat) ^ k < 2 ^ 30"
    by (rule le_less_trans)
  then have "k < 30"
    by (rule power_less_imp_less_exp [rotated]) simp
  define j where "j = k - 5"
  have kj: "k = j + 5" and j: "2 \<le> j" "j \<le> 24"
    using \<open>7 < Suc k\<close> \<open>k < 30\<close> by (simp_all add: j_def)
  have sh: "msb S - MaxLog2SLI = of_nat j"
    by (simp add: k(2) kj tlsf_consts)
  have fl: "msb S - FLIOffset = of_nat j - 1"
    by (simp add: k(2) kj tlsf_consts)
  have uj: "unat (of_nat j :: int64) = j"
    using j by (simp add: unat_of_nat)
  have "(1 :: int64) \<le> of_nat j"
    using j by (simp add: word_le_nat_alt uj)
  then have uj1: "unat (of_nat j - 1 :: int64) = j - 1"
    by (simp add: unat_sub uj)
  have "(of_nat j :: int64) \<le> 0xFFFFFFFF"
    using j by (simp add: word_le_nat_alt uj)
  then have "sint (of_nat j :: int64) = uint (of_nat j :: int64)"
    by (rule sint_small)
  also have "\<dots> = int j"
    by (simp only: uint_nat uj)
  finally have sj: "sint (of_nat j :: int64) = int j" .
  have shr: "shr64 S (of_nat j) = Inr (signed_drop_bit j S)"
    using j by (simp add: shr64_def word_sless_alt word_sle_eq sj uj)
  have "S < 0x100000000"
    using hi by (simp add: word_less_nat_alt)
  then have "uint S < 2 ^ 32"
    by (simp add: word_less_def)
  then have "S AND mask 32 = S"
    unfolding mask_eq_iff .
  then have xS: "S = take_bit 32 S"
    by (simp add: take_bit_eq_mask)
  have dq: "signed_drop_bit j S = drop_bit j S"
    apply (subst (1 2) xS)
    apply (rule bit_eqI)
    using j apply (auto simp: bit_simps)
    done
  have uq: "unat (signed_drop_bit j S) = unat S div 2 ^ j"
    unfolding dq unat_drop_bit_eq by (simp add: drop_bit_eq_div)
  have "32 * 2 ^ j \<le> unat S"
    using k(3) by (simp add: kj power_add mult.commute)
  then have d32: "32 \<le> unat S div 2 ^ j"
    by (simp add: less_eq_div_iff_mult_less_eq)
  have "unat S < 64 * 2 ^ j"
    using k(4) by (simp add: kj power_add mult.commute)
  then have d64: "unat S div 2 ^ j < 64"
    by (simp add: div_less_iff_less_mult)
  have "(32 :: int64) \<le> signed_drop_bit j S"
    using d32 by (simp add: word_le_nat_alt uq)
  then have "unat (signed_drop_bit j S - 32) = unat S div 2 ^ j - 32"
    by (simp add: unat_sub uq)
  with d64 have sl: "unat (signed_drop_bit j S - MaxSLI) < 32"
    by (simp add: tlsf_consts)
  have "determineLevels S = Inr (of_nat j - 1, signed_drop_bit j S - MaxSLI)"
    by (simp add: determineLevels_def big Let_def sh fl shr)
  moreover have "unat (of_nat j - 1 :: int64) < 24"
    using j by (simp add: uj1)
  ultimately show ?thesis
    using sl by blast
qed

lemma determineLevels_in_range:
  fixes S :: int64
  assumes "unat S < 2 ^ 30"
  shows "\<exists>fl sl. determineLevels S = Inr (fl, sl) \<and> unat fl < 24 \<and> unat sl < 32"
proof (cases "unat S < 128")
  case True
  then have "unat (S div 4) < 32"
    by (simp add: unat_div)
  with determineLevels_small [OF True] show ?thesis
    by simp
next
  case False
  with assms determineLevels_large show ?thesis
    by simp
qed

section \<open>Oversized requests\<close>

lemma findSuitableBlock_fl_out_of_range:
  "\<not> index_ok RealFLI fl \<Longrightarrow> findSuitableBlock t fl sl = Inl IndexOutOfRange"
  by (simp add: findSuitableBlock_def slBitmap_get_def)

lemma unat_add_small:
  fixes r c :: int64
  assumes "unat r < 2 ^ 32" "unat c < 2 ^ 32"
  shows "unat (r + c) = unat r + unat c"
proof -
  have "unat r + unat c < 2 ^ 64"
    using assms by simp
  then show ?thesis
    by (simp add: unat_add_lem [THEN iffD1])
qed

lemma selectLevelsAndSize_top:
  fixes r :: int64
  assumes "0x40000000 \<le> r" "r \<le> 0xFC000000"
  shows "\<exists>s fl sl. selectLevelsAndSize r = Inr (s, fl, sl) \<and> \<not> index_ok RealFLI fl"
proof -
  have ur: "unat r < 2 ^ 32"
    using assms(2) by (simp add: word_le_nat_alt)
  then have r32: "r \<le> 0xFFFFFFFF"
    by (simp add: word_le_nat_alt)
  have big: "\<not> r <s SmallBlockSize"
    using assms(1) by (simp add: word_sless_alt sint_small [OF r32] SmallBlockSize_def word_le_def)
  show ?thesis
  proof (cases "r < 0x80000000")
    case True
    then have m: "msb r = 30"
      using msb_top [OF assms(1) r32] by simp
    have "unat (r + 0x1FFFFFF) = unat r + 0x1FFFFFF"
      using ur by (simp add: unat_add_small)
    then have lo: "0x40000000 \<le> r + 0x1FFFFFF" and hi: "r + 0x1FFFFFF \<le> 0xFFFFFFFF"
      using assms True by (simp_all add: word_le_nat_alt word_less_nat_alt)
    have m1: "msb (r + 0x1FFFFFF) = 30 \<or> msb (r + 0x1FFFFFF) = 31"
      using msb_top [OF lo hi] by simp
    then show ?thesis
      using big m
      by (auto simp: selectLevelsAndSize_def shl64_def shr64_def index_ok_def tlsf_consts Let_def
          word_sless_alt word_sle_eq)
  next
    case False
    then have m: "msb r = 31"
      using msb_top [OF assms(1) r32] by simp
    have "unat (r + 0x3FFFFFF) = unat r + 0x3FFFFFF"
      using ur by (simp add: unat_add_small)
    then have lo: "0x40000000 \<le> r + 0x3FFFFFF" and hi: "r + 0x3FFFFFF \<le> 0xFFFFFFFF"
      and top: "\<not> r + 0x3FFFFFF < 0x80000000"
      using assms False by (simp_all add: word_le_nat_alt word_less_nat_alt)
    have m1: "msb (r + 0x3FFFFFF) = 31"
      using msb_top [OF lo hi] top by simp
    then show ?thesis
      using big m
      by (auto simp: selectLevelsAndSize_def shl64_def shr64_def index_ok_def tlsf_consts Let_def
          word_sless_alt word_sle_eq)
  qed
qed

lemma msb_low_word_zero:
  "(ucast x :: uint32) = 0 \<Longrightarrow> msb x = - 1"
  by (simp add: msb_def table_def)

lemma Allocate_index_panic:
  assumes a: "MinBlockSize \<le>s sz" "0x40000000 \<le> roundUp sz" "roundUp sz \<le> 0xFC000000"
  shows "Allocate t sz = Inl IndexOutOfRange"
proof -
  from a(1) have clamp: "\<not> sz <s MinBlockSize"
    by (simp add: signed.not_less)
  from selectLevelsAndSize_top [OF a(2) a(3)]
  obtain s fl sl where sel: "selectLevelsAndSize (roundUp sz) = Inr (s, fl, sl)"
    and out: "\<not> index_ok RealFLI fl"
    by blast
  show "Allocate t sz = Inl IndexOutOfRange"
    by (simp add: Allocate_def clamp sel findSuitableBlock_fl_out_of_range [OF out] cong: eval_congs)
qed

lemma Allocate_shift_panic:
  assumes a: "MinBlockSize \<le>s sz" "SmallBlockSize \<le>s roundUp sz" "(ucast (roundUp sz) :: uint32) = 0"
  shows "Allocate t sz = Inl NegativeShift"
proof -
  from a have clamp: "\<not> sz <s MinBlockSize" and big: "\<not> roundUp sz <s SmallBlockSize"
    by (simp_all add: signed.not_less)
  from a have "msb (roundUp sz) = - 1"
    by (simp add: msb_low_word_zero)
  then have "selectLevelsAndSize (roundUp sz) = Inl NegativeShift"
    using big by (simp add: selectLevelsAndSize_def shl64_def tlsf_consts word_sless_alt)
  then show "Allocate t sz = Inl NegativeShift"
    by (simp add: Allocate_def clamp cong: eval_congs)
qed

text \<open>
  C9. For some sizes within the signed 64-bit input type but above the class limit of
  \<open>2^30\<close>, \<open>Allocate\<close> neither returns a pointer nor \<open>ErrBlockNotFound\<close>: the
  size-class computation yields \<open>fl \<ge> RealFLI\<close>, an index out of range, or a negative
  shift amount, and the operation panics. The claim gives every request whose rounded
  size is at least \<open>2^31\<close> as an example; that is too wide.

  As amended: a request of at least 16 bytes whose rounded size lies between \<open>2^30\<close>
  and \<open>2^32 - 2^26\<close> panics with an index out of range, and one whose rounded size is
  at least 128 with its low 32 bits all zero panics with a negative shift amount, on
  every arena.
\<close>

theorem Allocate_panics_on_huge_sizes:
  "(MinBlockSize \<le>s sz \<and> 0x40000000 \<le> roundUp sz \<and> roundUp sz \<le> 0xFC000000
      \<longrightarrow> Allocate t sz = Inl IndexOutOfRange) \<and>
   (MinBlockSize \<le>s sz \<and> SmallBlockSize \<le>s roundUp sz \<and> (ucast (roundUp sz) :: uint32) = 0
      \<longrightarrow> Allocate t sz = Inl NegativeShift)"
proof (intro conjI impI)
  assume h: "MinBlockSize \<le>s sz \<and> 0x40000000 \<le> roundUp sz \<and> roundUp sz \<le> 0xFC000000"
  show "Allocate t sz = Inl IndexOutOfRange"
    by (rule Allocate_index_panic [OF h [THEN conjunct1] h [THEN conjunct2, THEN conjunct1]
          h [THEN conjunct2, THEN conjunct2]])
next
  assume h: "MinBlockSize \<le>s sz \<and> SmallBlockSize \<le>s roundUp sz \<and>
    (ucast (roundUp sz) :: uint32) = 0"
  show "Allocate t sz = Inl NegativeShift"
    by (rule Allocate_shift_panic [OF h [THEN conjunct1] h [THEN conjunct2, THEN conjunct1]
          h [THEN conjunct2, THEN conjunct2]])
qed

theorem Allocate_panics_on_huge_sizes_witness:
  "(MinBlockSize \<le>s (0x80000000 :: int64) \<and> 0x40000000 \<le> roundUp 0x80000000 \<and>
    roundUp 0x80000000 \<le> 0xFC000000) \<and>
   (MinBlockSize \<le>s (0x100000000 :: int64) \<and> SmallBlockSize \<le>s roundUp 0x100000000 \<and>
    (ucast (roundUp 0x100000000) :: uint32) = 0) \<and>
   (\<forall>t. Allocate t 0x80000000 = Inl IndexOutOfRange \<and> Allocate t 0x100000000 = Inl NegativeShift)"
proof -
  have h1: "MinBlockSize \<le>s (0x80000000 :: int64) \<and> 0x40000000 \<le> roundUp 0x80000000 \<and>
    roundUp 0x80000000 \<le> 0xFC000000"
    by (simp add: roundUp_def tlsf_consts)
  have h2: "MinBlockSize \<le>s (0x100000000 :: int64) \<and> SmallBlockSize \<le>s roundUp 0x100000000 \<and>
    (ucast (roundUp 0x100000000) :: uint32) = 0"
    by (simp add: roundUp_def tlsf_consts)
  have "Allocate t 0x80000000 = Inl IndexOutOfRange" for t
    using Allocate_panics_on_huge_sizes [of "0x80000000" t, THEN conjunct1] h1 by (rule mp)
  moreover have "Allocate t 0x100000000 = Inl NegativeShift" for t
    using Allocate_panics_on_huge_sizes [of "0x100000000" t, THEN conjunct2] h2 by (rule mp)
  ultimately show ?thesis
    using h1 h2 by blast
qed

text \<open>
  The rounded size \<open>2^32 - 16\<close> is above \<open>2^31\<close>, and on a fresh arena of 32 KiB
  \<open>Allocate\<close> answers it with \<open>ErrBlockNotFound\<close>: adding \<open>2^26 - 1\<close> carries out of the low
  32 bits that \<open>msb\<close> reads.
\<close>

theorem Allocate_huge_size_not_found:
  "Allocate_on_fresh 0x10000 32768 0xFFFFFFF0 = Inr (Inl ErrBlockNotFound)"
  by (simp add: eval_defs tlsf_consts cong: eval_congs)

section \<open>Construction\<close>

lemma in_arena_nowrap:
  assumes "head t \<noteq> 0" "unat (head t) + unat (arena_len t) \<le> 2 ^ 64"
  shows "in_arena t p \<longleftrightarrow>
    unat (p - head t) + 8 \<le> unat (arena_len t) \<and> unat (p - head t) mod 8 = 0"
proof -
  have "p \<noteq> 0" if "unat (p - head t) + 8 \<le> unat (arena_len t)"
  proof
    assume "p = 0"
    have "unat (0 - head t) =
      (if unat (head t) \<le> unat (0::uintptr) then unat (0::uintptr) - unat (head t)
       else unat (0::uintptr) + 2 ^ LENGTH(64) - unat (head t))"
      by (rule unat_sub_if')
    with \<open>p = 0\<close> have "unat (p - head t) = 2 ^ 64 - unat (head t)"
      using assms(1) by (simp add: unat_gt_0)
    with that assms(2) show False
      by simp
  qed
  then show ?thesis
    by (auto simp: in_arena_def)
qed

lemma NewArena_from_block_size:
  fixes base :: uintptr and n :: uint32 and S :: int64
  assumes S: "roundDown (ucast n - 32) = S"
   and mask: "(S OR 1) AND 0xFFFFFFF8 = S"
   and dl: "determineLevels S = Inr (fl, sl)" "index_ok RealFLI fl" "index_ok MaxSLI sl"
   and ufl: "unat fl < 24" "unat sl < 32"
   and base: "base \<noteq> 0" "unat base + unat n \<le> 2 ^ 64"
   and uS: "16 \<le> unat S" "unat S + 32 \<le> unat n" "unat S mod 16 = 0"
  shows "\<exists>t. NewArena base n = Inr t \<and>
    UsedSize t = ucast n - roundDown (ucast n - 2 * BlockHeaderSize)"
proof -
  have n0: "n \<noteq> 0"
    using uS by auto
  have "unat n < 2 ^ LENGTH(32)"
    by (rule unsigned_less)
  then have nlt: "unat n < 2 ^ 32"
    by simp
  have un: "unat (ucast n :: int64) = unat n"
    using nlt by (simp add: unsigned_ucast_eq take_bit_nat_eq_self)
  have S32: "unat S < 2 ^ 32"
    using uS(2) nlt by simp
  have off: "unat (8 + S) = unat S + 8" "unat (16 + S) = unat S + 16" "unat (24 + S) = unat S + 24"
    "unat (S + 8) = unat S + 8" "unat (S + 16) = unat S + 16" "unat (S + 24) = unat S + 24"
    using S32 by (simp_all add: unat_add_lem [THEN iffD1])
  have al: "unat S mod 8 = 0" "(unat S + 8) mod 8 = 0" "(unat S + 16) mod 8 = 0"
    "(unat S + 24) mod 8 = 0"
    using uS(3) by presburger+
  have nw: "unat base + unat n \<le> 18446744073709551616"
    using base(2) by simp
  have uS0: "unat S \<noteq> 0" "unat S \<noteq> 8"
    using uS by auto
  have ne: "8 + S \<noteq> 0" "16 + S \<noteq> 0" "24 + S \<noteq> 0" "S \<noteq> 0" "S \<noteq> 8"
    using off uS0 by (auto simp: unat_eq_zero [symmetric] simp del: unat_eq_zero)
  note dl' = dl(2,3) [unfolded tlsf_consts, simplified]
  show ?thesis
    using uS nw
    apply (simp add: NewArena_def n0 S tlsf_consts cong: eval_congs)
    apply (simp add: Free_def insertBlock_def removeSize_def setBlockStatus_def
        getBlockSize_def isFree_def isPreviousBlockFree_def UsedSize_def
        matrix_get_def matrix_set_def slBitmap_get_def slBitmap_set_def
        store_def load_def blockSize_at_def prevHeader_at_def prev_at_def next_at_def
        getPtr_def Let_def in_arena_nowrap mask tlsf_consts base nw un off al ne dl dl' ufl
        cong: eval_congs if_cong)
    done
qed

lemma NewArena_in_range:
  fixes base :: uintptr and n :: uint32
  assumes n: "48 \<le> n" "n < 0x40000020" and base: "base \<noteq> 0" "unat base + unat n \<le> 2 ^ 64"
  shows "\<exists>t. NewArena base n = Inr t \<and>
    UsedSize t = ucast n - roundDown (ucast n - 2 * BlockHeaderSize)"
proof -
  define x :: int64 where "x = ucast n - 32"
  have un: "48 \<le> unat n" "unat n < 2 ^ 30 + 32"
    using n by (simp_all add: word_le_nat_alt word_less_nat_alt)
  have uN: "unat (ucast n :: int64) = unat n"
    using un(2) by (simp add: unsigned_ucast_eq take_bit_nat_eq_self)
  have "(32 :: int64) \<le> ucast n"
    using un(1) by (simp add: word_le_nat_alt uN)
  then have ux: "unat x = unat n - 32"
    by (simp add: x_def unat_sub uN)
  have uS: "unat (roundDown x) = (unat n - 32) div 16 * 16"
    by (simp add: unat_roundDown ux)
  have S1: "16 \<le> unat (roundDown x)" "unat (roundDown x) + 32 \<le> unat n"
    "unat (roundDown x) mod 16 = 0" and S2: "unat (roundDown x) < 2 ^ 30"
    unfolding uS using un by presburger+
  have "unat x < 2 ^ 32"
    using un(2) by (simp add: ux)
  then have mask: "(roundDown x OR 1) AND 0xFFFFFFF8 = roundDown x"
    by (rule getBlockSize_of_marked)
  from determineLevels_in_range [OF S2] obtain fl sl
    where dl: "determineLevels (roundDown x) = Inr (fl, sl)" and u: "unat fl < 24" "unat sl < 32"
    by blast
  show ?thesis
    by (rule NewArena_from_block_size [where S = "roundDown x", OF _ mask dl
          index_ok_unat(1) [OF u(1)] index_ok_unat(2) [OF u(2)] u base S1])
      (simp add: x_def)
qed

lemma README_example_from_any_base:
  assumes base: "base \<noteq> 0" "unat base + 32768 \<le> 2 ^ 64"
  shows "\<exists>t p t'. NewArena base 32768 = Inr t \<and> Allocate t 460 = Inr (Inr p, t') \<and>
    UsedSize t' = 512"
proof -
  have nw: "unat base \<le> 18446744073709518848"
    using base(2) by simp
  show ?thesis
    using nw
    by (simp add: in_arena_nowrap base step_defs tlsf_consts cong: eval_congs)
qed

text \<open>
  C8. Immediately after \<open>NewArena n\<close>, \<open>UsedSize\<close> equals \<open>n\<close> minus
  \<open>roundDown (n - 2 * BlockHeaderSize)\<close>; in particular, after \<open>NewArena (32 * 1024)\<close>
  followed by \<open>Allocate 460\<close>, \<open>UsedSize\<close> returns 512.

  As amended: this holds for \<open>48 \<le> n < 2^30 + 32\<close>, the sizes whose initial block has at
  least 16 bytes and a size class inside the matrix, for every non-nil address of the
  byte slice that leaves the slice inside the address space.
\<close>

theorem NewArena_usedSize:
  "(48 \<le> n \<and> n < 0x40000020 \<and> base \<noteq> 0 \<and> unat base + unat n \<le> 2 ^ 64 \<longrightarrow>
     (\<exists>t. NewArena base n = Inr t \<and>
          UsedSize t = ucast n - roundDown (ucast n - 2 * BlockHeaderSize))) \<and>
   (base \<noteq> 0 \<and> unat base + 32768 \<le> 2 ^ 64 \<longrightarrow>
     (\<exists>t p t'. NewArena base 32768 = Inr t \<and> Allocate t 460 = Inr (Inr p, t') \<and>
              UsedSize t' = 512))"
proof (intro conjI impI)
  assume h: "48 \<le> n \<and> n < 0x40000020 \<and> base \<noteq> 0 \<and> unat base + unat n \<le> 2 ^ 64"
  show "\<exists>t. NewArena base n = Inr t \<and>
          UsedSize t = ucast n - roundDown (ucast n - 2 * BlockHeaderSize)"
    by (rule NewArena_in_range [OF h [THEN conjunct1] h [THEN conjunct2, THEN conjunct1]
          h [THEN conjunct2, THEN conjunct2, THEN conjunct1]
          h [THEN conjunct2, THEN conjunct2, THEN conjunct2]])
next
  assume h: "base \<noteq> 0 \<and> unat base + 32768 \<le> 2 ^ 64"
  show "\<exists>t p t'. NewArena base 32768 = Inr t \<and> Allocate t 460 = Inr (Inr p, t') \<and>
              UsedSize t' = 512"
    by (rule README_example_from_any_base [OF h [THEN conjunct1] h [THEN conjunct2]])
qed

theorem NewArena_usedSize_witness:
  "(48 \<le> (32768 :: uint32) \<and> (32768 :: uint32) < 0x40000020 \<and> (0x10000 :: uintptr) \<noteq> 0 \<and>
    unat (0x10000 :: uintptr) + unat (32768 :: uint32) \<le> 2 ^ 64) \<and>
   ((0x10000 :: uintptr) \<noteq> 0 \<and> unat (0x10000 :: uintptr) + 32768 \<le> 2 ^ 64) \<and>
   (\<exists>t. NewArena 0x10000 32768 = Inr t \<and> UsedSize t = 32) \<and>
   (\<exists>t p t'. NewArena 0x10000 32768 = Inr t \<and> Allocate t 460 = Inr (Inr p, t') \<and>
            UsedSize t' = 512)"
proof -
  have h1: "48 \<le> (32768 :: uint32) \<and> (32768 :: uint32) < 0x40000020 \<and>
    (0x10000 :: uintptr) \<noteq> 0 \<and> unat (0x10000 :: uintptr) + unat (32768 :: uint32) \<le> 2 ^ 64"
    by simp
  have h2: "(0x10000 :: uintptr) \<noteq> 0 \<and> unat (0x10000 :: uintptr) + 32768 \<le> 2 ^ 64"
    by simp
  have v: "ucast (32768 :: uint32) - roundDown (ucast (32768 :: uint32) - 2 * BlockHeaderSize)
    = (32 :: int64)"
    by (simp add: roundDown_def tlsf_consts)
  have "\<exists>t. NewArena 0x10000 32768 = Inr t \<and>
    UsedSize t = ucast (32768 :: uint32) - roundDown (ucast (32768 :: uint32) - 2 * BlockHeaderSize)"
    using NewArena_usedSize [of 32768 "0x10000", THEN conjunct1] h1 by (rule mp)
  then have a: "\<exists>t. NewArena 0x10000 32768 = Inr t \<and> UsedSize t = 32"
    unfolding v .
  have b: "\<exists>t p t'. NewArena 0x10000 32768 = Inr t \<and> Allocate t 460 = Inr (Inr p, t') \<and>
    UsedSize t' = 512"
    using NewArena_usedSize [of 32768 "0x10000", THEN conjunct2] h2 by (rule mp)
  from h1 h2 a b show ?thesis
    by blast
qed

text \<open>
  Outside that range: for \<open>n = 32\<close> the initial block is empty, \<open>Free\<close> takes the block
  for its own free successor and \<open>UsedSize\<close> is 16 where the formula gives 32; for
  \<open>n = 2^30 + 32\<close> the class of the initial block is \<open>fl = 24\<close> and \<open>NewArena\<close> panics.
\<close>

theorem NewArena_usedSize_outside_range:
  "map_sum id UsedSize (NewArena 0x10000 32) = Inr 16 \<and>
   ucast (32 :: uint32) - roundDown (ucast (32 :: uint32) - 2 * BlockHeaderSize) = (32 :: int64) \<and>
   NewArena 0x10000 0x40000020 = Inl IndexOutOfRange"
  by (simp add: eval_defs tlsf_consts cong: eval_congs)

end
